theory Spec2Isabelle
  imports Complex_Main "HOL-Library.Sublist"
begin

section \<open>The static file handler of streamline-static\<close>

text \<open>
  A shallow embedding of the request handler \<^verbatim>\<open>staticProvider\<close> and of
  \<^verbatim>\<open>clearCache\<close>. JavaScript strings are \<^typ>\<open>string\<close>, objects used as
  dictionaries with a fixed insertion order (the response headers) are association
  lists, the module-level \<^verbatim>\<open>_cache\<close> object is a map that is passed in and
  returned, exceptions are the left summand of a sum type, and \<^verbatim>\<open>undefined\<close> is
  \<^const>\<open>None\<close>.
\<close>

subsection \<open>String primitives of JavaScript used by the handler\<close>

text \<open>\<^verbatim>\<open>s.indexOf(p)\<close>: the least index at which \<^verbatim>\<open>p\<close> occurs in \<^verbatim>\<open>s\<close>, or -1.\<close>

fun indexOf :: "string \<Rightarrow> string \<Rightarrow> int" where
  "indexOf [] p = (if p = [] then 0 else - 1)"
| "indexOf (c # s) p =
     (if prefix p (c # s) then 0
      else (let i = indexOf s p in if i = - 1 then - 1 else i + 1))"

text \<open>\<^verbatim>\<open>s.split(sep)\<close> for a one-character separator; the result is never empty.\<close>

fun split_str :: "char \<Rightarrow> string \<Rightarrow> string list" where
  "split_str sep [] = [[]]"
| "split_str sep (c # cs) =
     (if c = sep then [] # split_str sep cs
      else (case split_str sep cs of
              [] \<Rightarrow> [[c]]
            | x # xs \<Rightarrow> (c # x) # xs))"

text \<open>
  \<^verbatim>\<open>str.substring(str.length - pattern.length) === pattern\<close>: a negative start is
  clamped to 0 by \<^verbatim>\<open>substring\<close>, as the truncating subtraction on \<^typ>\<open>nat\<close> does.
\<close>

definition endsWith :: "string \<Rightarrow> string \<Rightarrow> bool" where
  "endsWith str pattern = (drop (length str - length pattern) str = pattern)"

text \<open>Decimal text of a non-negative integer and of an integer, as string concatenation prints them.\<close>

definition digit :: "nat \<Rightarrow> char" where
  "digit d = ''0123456789'' ! d"

fun dec :: "nat \<Rightarrow> string" where
  "dec n = (if n < 10 then [digit n] else dec (n div 10) @ [digit (n mod 10)])"

declare dec.simps [simp del]

definition num_str :: "int \<Rightarrow> string" where
  "num_str i = (if i < 0 then ''-'' @ dec (nat (- i)) else dec (nat i))"

text \<open>The number a decimal digit stands for, to read the text of a number back.\<close>

definition digit_value :: "char \<Rightarrow> nat" where
  "digit_value ch = of_char ch - 48"

subsection \<open>Data\<close>

text \<open>An exception, identified by its \<^verbatim>\<open>code\<close> property.\<close>

datatype js_error = JsError (code: string)

text \<open>The fields of \<^verbatim>\<open>fs.Stats\<close> the handler reads; \<^verbatim>\<open>mtime\<close> in milliseconds.\<close>

record stats =
  st_size :: nat
  st_mtime :: int
  st_isDirectory :: bool

text \<open>
  The functions of Node and of \<^verbatim>\<open>./utils\<close> the handler calls, taken as parameters:
  \<^verbatim>\<open>url.parse(u).pathname\<close>, \<^verbatim>\<open>querystring.unescape\<close>, \<^verbatim>\<open>path.join\<close>,
  \<^verbatim>\<open>path.sep\<close>, \<^verbatim>\<open>utils.mime.type\<close>, \<^verbatim>\<open>utils.mime.fromContent\<close>,
  \<^verbatim>\<open>Date.prototype.toUTCString\<close> and the \<^verbatim>\<open>Date\<close> constructor on a string
  (\<^const>\<open>None\<close> is the invalid date). The last one is the arithmetic of the language:
  \<^verbatim>\<open>quotient_text a b\<close> is the text that concatenating a string with \<^verbatim>\<open>a / b\<close>
  appends, the division and the printing being those of JavaScript's numbers.
\<close>

record lib =
  url_pathname :: "string \<Rightarrow> string"
  unescape :: "string \<Rightarrow> string"
  path_join :: "string \<Rightarrow> string \<Rightarrow> string"
  path_sep :: char
  mime_type :: "string \<Rightarrow> string"
  mime_fromContent :: "string \<Rightarrow> string \<Rightarrow> string"
  toUTCString :: "int \<Rightarrow> string"
  parseDate :: "string \<Rightarrow> int option"
  quotient_text :: "rat \<Rightarrow> rat \<Rightarrow> string"

text \<open>The file system and the clock at the time of the request.\<close>

record world =
  fs_stat :: "string \<Rightarrow> js_error + stats"
  fs_readFile :: "string \<Rightarrow> js_error + string"
  now :: int

text \<open>
  The variables \<^verbatim>\<open>roots\<close>, \<^verbatim>\<open>maxAge\<close> and \<^verbatim>\<open>cache\<close> the returned handler closes
  over: the roots in their order, a finite number of milliseconds, and the truth value
  of \<^verbatim>\<open>cache\<close>, which the handler only tests.
\<close>

record config =
  roots :: "string list"
  maxAge :: rat
  cache :: bool

text \<open>The per-request options object \<^verbatim>\<open>opts\<close>; an absent property is \<^const>\<open>None\<close>.\<close>

record opts =
  cachePrefix :: "string option"
  transform :: "(string \<Rightarrow> js_error + string) option"
  nocache :: bool

record request =
  req_method :: string
  url :: string
  req_headers :: "(string \<times> string) list"

text \<open>
  A headers object, in the order its properties were added. A value is kept as the text
  \<^verbatim>\<open>writeHead\<close> sends: the number \<^verbatim>\<open>data.length\<close> of \<^verbatim>\<open>content-length\<close> is its
  decimal text.
\<close>

type_synonym headers = "(string \<times> string) list"

record cache_entry =
  ce_headers :: headers
  ce_body :: string

type_synonym cache_store = "string \<rightharpoonup> cache_entry"

text \<open>What \<^verbatim>\<open>res.writeHead\<close> and \<^verbatim>\<open>res.end\<close> received.\<close>

record response =
  status :: nat
  res_headers :: headers
  res_body :: "string option"

text \<open>The handler's return value, the response it wrote if any, and \<^verbatim>\<open>_cache\<close> afterwards.\<close>

record outcome =
  handled :: bool
  written :: "response option"
  store :: cache_store

subsection \<open>Helpers of the module\<close>

text \<open>A string operand of \<^verbatim>\<open>&&\<close> or \<^verbatim>\<open>||\<close> counts as true when it is defined and not empty.\<close>

definition truthy :: "string option \<Rightarrow> bool" where
  "truthy v = (case v of None \<Rightarrow> False | Some s \<Rightarrow> s \<noteq> [])"

definition conditionalGET :: "request \<Rightarrow> bool" where
  "conditionalGET req =
     (truthy (map_of (req_headers req) ''if-modified-since'') \<or>
      truthy (map_of (req_headers req) ''if-none-match''))"

definition etag :: "stats \<Rightarrow> string" where
  "etag st = dec (st_size st) @ ''-'' @ num_str (st_mtime st)"

definition modified :: "lib \<Rightarrow> request \<Rightarrow> headers \<Rightarrow> bool" where
  "modified l req hs =
     (let modifiedSince = map_of (req_headers req) ''if-modified-since'';
          lastModified = map_of hs ''Last-Modified'';
          noneMatch = map_of (req_headers req) ''if-none-match'';
          etg = map_of hs ''ETag''
      in if truthy noneMatch \<and> truthy etg \<and> noneMatch = etg then False
         else if truthy modifiedSince \<and> truthy lastModified then
           (case parseDate l (the modifiedSince) of
              None \<Rightarrow> True
            | Some since \<Rightarrow>
                (case parseDate l (the lastModified) of
                   None \<Rightarrow> True
                 | Some lm \<Rightarrow> \<not> lm \<le> since))
         else True)"

definition notModified :: "headers \<Rightarrow> response" where
  "notModified hs =
     \<lparr>status = 304,
      res_headers = filter (\<lambda>(field, v). \<not> (0 = indexOf field ''Content'')) hs,
      res_body = None\<rparr>"

definition forbidden :: response where
  "forbidden =
     \<lparr>status = 403,
      res_headers = [(''Content-Type'', ''text/plain''),
                     (''Content-Length'', dec (length ''Forbidden''))],
      res_body = Some ''Forbidden''\<rparr>"

text \<open>
  \<^verbatim>\<open>opts ? opts.cachePrefix + x : x\<close>: with an options object that has no
  \<^verbatim>\<open>cachePrefix\<close>, the concatenation prints \<^verbatim>\<open>undefined\<close>.
\<close>

definition prefixed :: "opts option \<Rightarrow> string \<Rightarrow> string" where
  "prefixed os x =
     (case os of
        None \<Rightarrow> x
      | Some o' \<Rightarrow> (case cachePrefix o' of None \<Rightarrow> ''undefined'' | Some p \<Rightarrow> p) @ x)"

definition clearCache :: "string option \<Rightarrow> opts option \<Rightarrow> cache_store \<Rightarrow> cache_store" where
  "clearCache key os c =
     (if truthy key then c(prefixed os (the key) := None) else Map.empty)"

subsection \<open>The handler\<close>

text \<open>\<^verbatim>\<open>req.url.split('?')[0]\<close>.\<close>

definition drop_query :: "string \<Rightarrow> string" where
  "drop_query u = (case split_str CHR ''?'' u of [] \<Rightarrow> [] | x # _ \<Rightarrow> x)"

definition cacheKey :: "opts option \<Rightarrow> request \<Rightarrow> string" where
  "cacheKey os req = prefixed os (drop_query (url req))"

text \<open>\<^verbatim>\<open>queryString.unescape(parseUrl(req.url).pathname)\<close>, on the URL without its query.\<close>

definition pathname :: "lib \<Rightarrow> request \<Rightarrow> string" where
  "pathname l req = unescape l (url_pathname l (drop_query (url req)))"

text \<open>The file name tried under one root: the joined path, with the index file appended.\<close>

definition candidate :: "lib \<Rightarrow> string \<Rightarrow> string \<Rightarrow> string" where
  "candidate l dir p =
     (let filename = path_join l dir p
      in if filename \<noteq> [] \<and> last filename = path_sep l then filename @ ''index.html''
         else filename)"

text \<open>
  The loop over the roots. It ends at the first root whose \<^verbatim>\<open>stat\<close> returns, with
  that file name and its stats; an error whose code is not \<^verbatim>\<open>ENOENT\<close> is rethrown.
\<close>

fun resolve :: "lib \<Rightarrow> world \<Rightarrow> string list \<Rightarrow> string \<Rightarrow> js_error + (string \<times> stats) option" where
  "resolve l w [] p = Inr None"
| "resolve l w (dir # rs) p =
     (let filename = candidate l dir p
      in case fs_stat w filename of
           Inr st \<Rightarrow> Inr (Some (filename, st))
         | Inl err \<Rightarrow> if code err \<noteq> ''ENOENT'' then Inl err else resolve l w rs p)"

text \<open>The MIME type, the headers object, and the download header for executables.\<close>

definition response_headers ::
  "config \<Rightarrow> lib \<Rightarrow> world \<Rightarrow> opts option \<Rightarrow> string \<Rightarrow> stats \<Rightarrow> string \<Rightarrow> headers" where
  "response_headers cfg l w os filename st data =
     (let mime0 = mime_type l filename;
          mime = (if mime0 = ''application/octet-stream'' then mime_fromContent l data mime0
                  else mime0);
          hs = [(''content-type'', mime),
                (''content-length'', dec (length data)),
                (''last-modified'', toUTCString l (st_mtime st)),
                (''cache-control'',
                   if (case os of None \<Rightarrow> False | Some o' \<Rightarrow> nocache o')
                   then ''no-cache, no-store, must-revalidate''
                   else ''public, max-age='' @ quotient_text l (maxAge cfg) 1000),
                (''etag'', [CHR 0x22] @ etag st @ [CHR 0x22]),
                (''expires'', toUTCString l (now w))]
      in if endsWith filename ''.EXE'' \<or> endsWith filename ''.exe''
         then hs @ [(''content-disposition'',
                     ''attachment; filename='' @ [CHR 0x22] @ last (split_str (path_sep l) filename))]
         else hs)"

text \<open>\<^verbatim>\<open>if (opts && opts.transform) data = opts.transform(_, data)\<close>; the transform may throw.\<close>

definition transformed :: "opts option \<Rightarrow> string \<Rightarrow> js_error + string" where
  "transformed os raw =
     (case os of
        None \<Rightarrow> Inr raw
      | Some o' \<Rightarrow> (case transform o' of None \<Rightarrow> Inr raw | Some f \<Rightarrow> f raw))"

text \<open>\<^verbatim>\<open>return false\<close>: nothing is written and the cache is as it was.\<close>

definition declined :: "cache_store \<Rightarrow> outcome" where
  "declined c = \<lparr>handled = False, written = None, store = c\<rparr>"

text \<open>
  The function \<^verbatim>\<open>staticProvider(_, req, res, opts)\<close> returned by the constructor, on
  the configuration it closes over. An exception thrown by \<^verbatim>\<open>fs.stat\<close>,
  \<^verbatim>\<open>fs.readFile\<close> or the transform leaves the handler and is the \<^const>\<open>Inl\<close> result.
  The handler also assigns the URL without its query to \<^verbatim>\<open>req.url\<close> and an empty
  object to a missing \<^verbatim>\<open>req.headers\<close>; the request is not part of the outcome.
\<close>

definition staticProvider ::
  "config \<Rightarrow> lib \<Rightarrow> world \<Rightarrow> cache_store \<Rightarrow> request \<Rightarrow> opts option \<Rightarrow> js_error + outcome" where
  "staticProvider cfg l w c req os =
     (if req_method req \<noteq> ''GET'' \<and> req_method req \<noteq> ''HEAD'' then Inr (declined c)
      else if indexOf (pathname l req) ''..'' \<noteq> - 1
      then Inr \<lparr>handled = True, written = Some forbidden, store = c\<rparr>
      else
        (case (if cache cfg \<and> \<not> conditionalGET req then c (cacheKey os req) else None) of
           Some hit \<Rightarrow>
             Inr \<lparr>handled = True,
                  written = Some \<lparr>status = 200, res_headers = ce_headers hit,
                                  res_body = (if req_method req = ''HEAD'' then None
                                              else Some (ce_body hit))\<rparr>,
                  store = c\<rparr>
         | None \<Rightarrow>
             (case resolve l w (roots cfg) (pathname l req) of
                Inl err \<Rightarrow> Inl err
              | Inr None \<Rightarrow> Inr (declined c)
              | Inr (Some (filename, st)) \<Rightarrow>
                  if st_isDirectory st then Inr (declined c)
                  else
                    (case fs_readFile w filename of
                       Inl err \<Rightarrow> Inl err
                     | Inr raw \<Rightarrow>
                         (case transformed os raw of
                            Inl err \<Rightarrow> Inl err
                          | Inr data \<Rightarrow>
                              (let hs = response_headers cfg l w os filename st data
                               in if \<not> modified l req hs
                                  then Inr \<lparr>handled = True, written = Some (notModified hs),
                                            store = c\<rparr>
                                  else Inr \<lparr>handled = True,
                                            written = Some \<lparr>status = 200, res_headers = hs,
                                                            res_body = (if req_method req = ''HEAD''
                                                                        then None
                                                                        else Some data)\<rparr>,
                                            store = (if cache cfg
                                                     then c(cacheKey os req \<mapsto>
                                                            \<lparr>ce_headers = hs, ce_body = data\<rparr>)
                                                     else c)\<rparr>))))))"

subsection \<open>Predicates of the statements\<close>

text \<open>A \<^verbatim>\<open>stat\<close> that throws the error a missing file gives.\<close>

definition not_found :: "world \<Rightarrow> string \<Rightarrow> bool" where
  "not_found w f = (case fs_stat w f of Inl err \<Rightarrow> code err = ''ENOENT'' | Inr st \<Rightarrow> False)"

text \<open>
  The root \<^verbatim>\<open>r\<close> is one of the roots, and for every root before its first place in the
  array the \<^verbatim>\<open>stat\<close> of the candidate file throws \<^verbatim>\<open>ENOENT\<close>.
\<close>

definition first_hit :: "lib \<Rightarrow> world \<Rightarrow> string list \<Rightarrow> string \<Rightarrow> string \<Rightarrow> bool" where
  "first_hit l w rs p r =
     (r \<in> set rs \<and>
      list_all (\<lambda>x. not_found w (candidate l x p)) (takeWhile (\<lambda>x. x \<noteq> r) rs))"

subsection \<open>A concrete installation\<close>

text \<open>
  An instance of the parameters on which the definitions can be run: library functions
  that behave as Node's do on paths without escapes, fragments or dot segments (dates
  are printed by a stand-in, only three file extensions have a type, and a quotient is
  printed when it is a whole number below \<open>2 ^ 53\<close>, in decimal as JavaScript prints
  it), and a file
  system holding a few files under the roots \<^verbatim>\<open>/www\<close> and \<^verbatim>\<open>/alt\<close>; every
  \<^verbatim>\<open>stat\<close> under \<^verbatim>\<open>/www/locked\<close> throws \<^verbatim>\<open>EACCES\<close>.
\<close>

definition posix_lib :: lib where
  "posix_lib =
     \<lparr>url_pathname = (\<lambda>u. u),
      unescape = (\<lambda>s. s),
      path_join = (\<lambda>a b. a @ b),
      path_sep = CHR ''/'',
      mime_type = (\<lambda>f. if endsWith f ''.txt'' then ''text/plain''
                        else if endsWith f ''.html'' then ''text/html''
                        else ''application/octet-stream''),
      mime_fromContent = (\<lambda>d m. m),
      toUTCString = (\<lambda>t. ''t='' @ num_str t),
      parseDate = (\<lambda>s. None),
      quotient_text = (\<lambda>a b. if b \<noteq> 0 \<and> 0 \<le> a / b \<and> a / b < 2 ^ 53 \<and>
                                  of_int \<lfloor>a / b\<rfloor> = a / b
                               then dec (nat \<lfloor>a / b\<rfloor>) else ''?'')\<rparr>"

text \<open>
  A decoder for the escapes of a small table, standing in for \<^verbatim>\<open>querystring.unescape\<close>
  where a path with an escape is run.
\<close>

definition escape_table :: "(string \<times> char) list" where
  "escape_table =
     [(''2e'', CHR ''.''), (''2E'', CHR ''.''), (''20'', CHR '' ''), (''25'', CHR ''%'')]"

fun table_unescape :: "string \<Rightarrow> string" where
  "table_unescape (c # a # b # s) =
     (if c = CHR ''%''
      then (case map_of escape_table [a, b] of
              Some ch \<Rightarrow> ch # table_unescape s
            | None \<Rightarrow> c # table_unescape (a # b # s))
      else c # table_unescape (a # b # s))"
| "table_unescape s = s"

definition decoding_lib :: lib where
  "decoding_lib = posix_lib\<lparr>unescape := table_unescape\<rparr>"

definition demo_files :: "(string \<times> stats \<times> string) list" where
  "demo_files =
     [(''/www/a.txt'', \<lparr>st_size = 2, st_mtime = 1000, st_isDirectory = False\<rparr>, ''hi''),
      (''/www/name.exe'', \<lparr>st_size = 2, st_mtime = 2000, st_isDirectory = False\<rparr>, ''MZ''),
      (''/www/Setup.Exe'', \<lparr>st_size = 2, st_mtime = 2500, st_isDirectory = False\<rparr>, ''MZ''),
      (''/www/a..b.txt'', \<lparr>st_size = 3, st_mtime = 3000, st_isDirectory = False\<rparr>, ''dot''),
      (''/www/docs'', \<lparr>st_size = 0, st_mtime = 4000, st_isDirectory = True\<rparr>, []),
      (''/www/docs/index.html'', \<lparr>st_size = 4, st_mtime = 5000, st_isDirectory = False\<rparr>, ''home''),
      (''/alt/a.txt'', \<lparr>st_size = 3, st_mtime = 6000, st_isDirectory = False\<rparr>, ''alt''),
      (''/alt/b.txt'', \<lparr>st_size = 1, st_mtime = 7000, st_isDirectory = False\<rparr>, ''b'')]"

definition demo_world :: world where
  "demo_world =
     \<lparr>fs_stat = (\<lambda>f. if prefix ''/www/locked'' f then Inl (JsError ''EACCES'')
                      else (case map_of demo_files f of
                              None \<Rightarrow> Inl (JsError ''ENOENT'')
                            | Some (st, body) \<Rightarrow> Inr st)),
      fs_readFile = (\<lambda>f. case map_of demo_files f of
                            None \<Rightarrow> Inl (JsError ''ENOENT'')
                          | Some (st, body) \<Rightarrow>
                              if st_isDirectory st then Inl (JsError ''EISDIR'') else Inr body),
      now = 9000\<rparr>"

definition demo_config :: config where
  "demo_config = \<lparr>roots = [''/www'', ''/alt''], maxAge = 31557600000, cache = True\<rparr>"

definition get_request :: "string \<Rightarrow> request" where
  "get_request u = \<lparr>req_method = ''GET'', url = u, req_headers = []\<rparr>"

text \<open>A cache holding an entry for \<^verbatim>\<open>/a.txt\<close> whose body differs from the file's.\<close>

definition demo_entry :: cache_entry where
  "demo_entry =
     \<lparr>ce_headers = [(''content-type'', ''text/plain''), (''content-length'', ''6'')],
      ce_body = ''cached''\<rparr>"

definition demo_store :: cache_store where
  "demo_store = [''/a.txt'' \<mapsto> demo_entry]"

text \<open>An options object that sets \<^verbatim>\<open>nocache\<close> only.\<close>

definition nocache_opts :: opts where
  "nocache_opts = \<lparr>cachePrefix = None, transform = None, nocache = True\<rparr>"

section \<open>Properties\<close>

subsection \<open>Strings\<close>

lemma indexOf_ge: "- 1 \<le> indexOf s p"
  by (induction s) (auto simp: Let_def)

lemma indexOf_zero_iff: "indexOf s p = 0 \<longleftrightarrow> prefix p s"
proof (cases s)
  case Nil
  then show ?thesis by simp
next
  case (Cons c t)
  have "- 1 \<le> indexOf t p" by (rule indexOf_ge)
  then show ?thesis using Cons by (auto simp: Let_def)
qed

lemma indexOf_found_iff: "indexOf s p \<noteq> - 1 \<longleftrightarrow> sublist p s"
proof (induction s)
  case Nil
  then show ?case by simp
next
  case (Cons c s)
  show ?case
  proof (cases "prefix p (c # s)")
    case True
    then show ?thesis by (simp add: prefix_imp_sublist)
  next
    case False
    have "- 1 \<le> indexOf s p" by (rule indexOf_ge)
    then have "indexOf (c # s) p \<noteq> - 1 \<longleftrightarrow> indexOf s p \<noteq> - 1"
      using False by (simp add: Let_def)
    also have "\<dots> \<longleftrightarrow> sublist p s" by (rule Cons.IH)
    also have "\<dots> \<longleftrightarrow> sublist p (c # s)" using False by (simp add: sublist_Cons_right)
    finally show ?thesis .
  qed
qed

lemma split_str_not_Nil: "split_str sep s \<noteq> []"
  by (induction s) (auto split: list.splits)

lemma hd_split_str: "hd (split_str sep s) = takeWhile (\<lambda>c. c \<noteq> sep) s"
  using split_str_not_Nil [of sep]
  by (induction s) (auto split: list.splits)

lemma drop_query_takeWhile: "drop_query u = takeWhile (\<lambda>c. c \<noteq> CHR ''?'') u"
  using hd_split_str [of "CHR ''?''" u] split_str_not_Nil [of "CHR ''?''" u]
  by (cases "split_str CHR ''?'' u") (auto simp: drop_query_def)

lemma segment_sublist: "x \<in> set (split_str sep s) \<Longrightarrow> sublist x s"
proof (induction s arbitrary: x)
  case Nil
  then show ?case by simp
next
  case (Cons c s)
  show ?case
  proof (cases "c = sep")
    case True
    with Cons.prems have "x = [] \<or> x \<in> set (split_str sep s)" by auto
    then show ?thesis using Cons.IH by (auto simp: sublist_Cons_right)
  next
    case False
    obtain y ys where sp: "split_str sep s = y # ys"
      using split_str_not_Nil by (cases "split_str sep s") auto
    with False Cons.prems have "x = c # y \<or> x \<in> set ys" by auto
    then show ?thesis
    proof
      assume x: "x = c # y"
      have "y = takeWhile (\<lambda>c. c \<noteq> sep) s" using hd_split_str [of sep s] sp by simp
      then have "prefix y s" by (metis takeWhile_dropWhile_id prefixI)
      then show ?thesis using x by (simp add: prefix_imp_sublist)
    next
      assume "x \<in> set ys"
      then have "sublist x s" using Cons.IH sp by simp
      then show ?thesis by (simp add: sublist_Cons_right)
    qed
  qed
qed

text \<open>\<^const>\<open>dec\<close> prints a number in decimal: reading the digits back gives the number.\<close>

lemma digit_value_digit: "d < 10 \<Longrightarrow> digit_value (digit d) = d"
proof -
  assume "d < 10"
  then have "d \<in> {0, 1, 2, 3, 4, 5, 6, 7, 8, 9}" by auto
  then show ?thesis
    by (auto simp add: digit_def digit_value_def)
qed

lemma dec_value: "foldl (\<lambda>a ch. 10 * a + digit_value ch) 0 (dec n) = n"
proof (induction n rule: dec.induct)
  case (1 n)
  show ?case
  proof (cases "n < 10")
    case True
    then show ?thesis by (simp add: dec.simps [of n] digit_value_digit)
  next
    case False
    then have "foldl (\<lambda>a ch. 10 * a + digit_value ch) 0 (dec (n div 10)) = n div 10"
      using "1.IH" by simp
    then show ?thesis using False
      by (simp add: dec.simps [of n] digit_value_digit)
  qed
qed

subsection \<open>The handler\<close>

text \<open>
  The headers the handler builds have lower-case names, while \<^verbatim>\<open>modified\<close> reads
  \<^verbatim>\<open>Last-Modified\<close> and \<^verbatim>\<open>ETag\<close>: on these headers it finds neither and answers true.
\<close>

lemma modified_built: "modified l req (response_headers cfg l w os f st d)"
  by (simp add: modified_def response_headers_def truthy_def Let_def)

lemma forbidden_eq:
  "forbidden = \<lparr>status = 403,
                 res_headers = [(''Content-Type'', ''text/plain''), (''Content-Length'', ''9'')],
                 res_body = Some ''Forbidden''\<rparr>"
  by (simp add: forbidden_def dec.simps digit_def)

lemma status_built:
  assumes "staticProvider cfg l w c req os = Inr out" and "written out = Some r"
  shows "status r = 200 \<or> status r = 403"
  using assms
  by (auto simp add: staticProvider_def declined_def modified_built forbidden_def Let_def
      split: option.splits sum.splits if_splits)

subsection \<open>Path safety\<close>

text \<open>
  Claim C2, as amended. For every GET or HEAD request whose decoded path has a segment
  \<^verbatim>\<open>..\<close> (for any separator character), the handler answers 403 with the plain-text
  body \<^verbatim>\<open>Forbidden\<close> and returns true, whatever the configuration, the file system
  and the cache hold; the cache is left as it was.
\<close>

theorem traversal_forbidden:
  assumes "req_method req = ''GET'' \<or> req_method req = ''HEAD''"
    and "''..'' \<in> set (split_str sep (pathname l req))"
  shows "staticProvider cfg l w c req os =
           Inr \<lparr>handled = True,
                written = Some \<lparr>status = 403,
                                res_headers = [(''Content-Type'', ''text/plain''),
                                               (''Content-Length'', ''9'')],
                                res_body = Some ''Forbidden''\<rparr>,
                store = c\<rparr>"
proof -
  have "sublist ''..'' (pathname l req)"
    using assms(2) by (rule segment_sublist)
  then have "indexOf (pathname l req) ''..'' \<noteq> - 1"
    by (simp only: indexOf_found_iff)
  with assms(1) show ?thesis
    by (auto simp add: staticProvider_def forbidden_eq)
qed

text \<open>The theorem at \<^verbatim>\<open>GET /../etc/passwd\<close>.\<close>

theorem traversal_forbidden_witness:
  "req_method (get_request ''/../etc/passwd'') = ''GET'' \<and>
   ''..'' \<in> set (split_str CHR ''/'' (pathname posix_lib (get_request ''/../etc/passwd''))) \<and>
   staticProvider demo_config posix_lib demo_world Map.empty (get_request ''/../etc/passwd'') None =
     Inr \<lparr>handled = True,
          written = Some \<lparr>status = 403,
                          res_headers = [(''Content-Type'', ''text/plain''),
                                         (''Content-Length'', ''9'')],
                          res_body = Some ''Forbidden''\<rparr>,
          store = Map.empty\<rparr>"
  using traversal_forbidden [of "get_request ''/../etc/passwd''" "CHR ''/''" posix_lib
      demo_config demo_world Map.empty None]
  by (simp add: get_request_def pathname_def posix_lib_def drop_query_def)

text \<open>
  Claim C2 as stated speaks of every request. The method is tested first: a POST for
  \<^verbatim>\<open>/../etc/passwd\<close> is declined, with no response written.
\<close>

theorem traversal_post_counterexample:
  "''..'' \<in> set (split_str CHR ''/''
      (pathname posix_lib \<lparr>req_method = ''POST'', url = ''/../etc/passwd'', req_headers = []\<rparr>)) \<and>
   staticProvider demo_config posix_lib demo_world Map.empty
      \<lparr>req_method = ''POST'', url = ''/../etc/passwd'', req_headers = []\<rparr> None =
     Inr \<lparr>handled = False, written = None, store = Map.empty\<rparr>"
  by (simp add: staticProvider_def declined_def pathname_def posix_lib_def drop_query_def)

text \<open>
  Claim C10, as amended. The check is a substring test: the handler answers 403 exactly
  when the method is GET or HEAD and the decoded path contains \<^verbatim>\<open>..\<close> anywhere.
  A request for such a path is never served, whatever the file system holds: it is
  answered 403 for GET and HEAD and declined for any other method.
\<close>

theorem substring_check:
  "((\<exists>out r. staticProvider cfg l w c req os = Inr out \<and> written out = Some r \<and> status r = 403)
      \<longleftrightarrow> (req_method req = ''GET'' \<or> req_method req = ''HEAD'') \<and> sublist ''..'' (pathname l req)) \<and>
   (sublist ''..'' (pathname l req) \<longrightarrow>
      staticProvider cfg l w c req os =
        (if req_method req = ''GET'' \<or> req_method req = ''HEAD''
         then Inr \<lparr>handled = True, written = Some forbidden, store = c\<rparr>
         else Inr \<lparr>handled = False, written = None, store = c\<rparr>))"
proof -
  have sub: "sublist ''..'' (pathname l req) \<longleftrightarrow> indexOf (pathname l req) ''..'' \<noteq> - 1"
    by (simp only: indexOf_found_iff)
  show ?thesis
    unfolding sub
    by (auto simp add: staticProvider_def declined_def modified_built forbidden_def Let_def
        split: option.splits sum.splits if_splits)
qed

text \<open>
  The theorem at \<^verbatim>\<open>GET /a..b.txt\<close>: the path has no \<^verbatim>\<open>..\<close> segment and the file
  exists under the first root, and the answer is 403.
\<close>

theorem substring_check_witness:
  "fs_stat demo_world (candidate posix_lib ''/www'' ''/a..b.txt'') =
     Inr \<lparr>st_size = 3, st_mtime = 3000, st_isDirectory = False\<rparr> \<and>
   ''..'' \<notin> set (split_str CHR ''/'' (pathname posix_lib (get_request ''/a..b.txt''))) \<and>
   sublist ''..'' (pathname posix_lib (get_request ''/a..b.txt'')) \<and>
   staticProvider demo_config posix_lib demo_world Map.empty (get_request ''/a..b.txt'') None =
     Inr \<lparr>handled = True, written = Some forbidden, store = Map.empty\<rparr>"
proof -
  have p: "pathname posix_lib (get_request ''/a..b.txt'') = ''/a..b.txt''"
    by (simp add: get_request_def pathname_def posix_lib_def drop_query_def)
  have s: "sublist ''..'' (pathname posix_lib (get_request ''/a..b.txt''))"
    unfolding p indexOf_found_iff [symmetric] by simp
  have "staticProvider demo_config posix_lib demo_world Map.empty (get_request ''/a..b.txt'') None =
     Inr \<lparr>handled = True, written = Some forbidden, store = Map.empty\<rparr>"
    using substring_check [of demo_config posix_lib demo_world Map.empty "get_request ''/a..b.txt''" None] s
    by (simp add: get_request_def)
  moreover have "fs_stat demo_world (candidate posix_lib ''/www'' ''/a..b.txt'') =
     Inr \<lparr>st_size = 3, st_mtime = 3000, st_isDirectory = False\<rparr>"
    by (simp add: demo_world_def demo_files_def candidate_def posix_lib_def)
  moreover have "''..'' \<notin> set (split_str CHR ''/'' (pathname posix_lib (get_request ''/a..b.txt'')))"
    unfolding p by simp
  ultimately show ?thesis using s by simp
qed

text \<open>
  Claim C10 as stated has every such path answered 403. A PUT for \<^verbatim>\<open>/a..b.txt\<close> is
  declined instead, with no response written.
\<close>

theorem substring_check_put_counterexample:
  "sublist ''..'' (pathname posix_lib \<lparr>req_method = ''PUT'', url = ''/a..b.txt'', req_headers = []\<rparr>) \<and>
   staticProvider demo_config posix_lib demo_world Map.empty
      \<lparr>req_method = ''PUT'', url = ''/a..b.txt'', req_headers = []\<rparr> None =
     Inr \<lparr>handled = False, written = None, store = Map.empty\<rparr>"
proof -
  have "indexOf ''/a..b.txt'' ''..'' \<noteq> - 1" by simp
  then have "sublist ''..'' ''/a..b.txt''" by (simp only: indexOf_found_iff)
  then show ?thesis
    by (simp add: staticProvider_def declined_def pathname_def posix_lib_def drop_query_def)
qed

subsection \<open>Declining\<close>

text \<open>
  Claim C6, as amended. The handler returns false exactly when the method is neither GET
  nor HEAD, or when the request passes the traversal check, is not answered from the
  cache, and the search of the roots ends with no stats or with the stats of a directory.
  When it returns false it has written no response and the cache is as it was; when it
  returns true it has written a response whose status is 200, 304 or 403.
\<close>
theorem declines_exactly:
  "((\<exists>out. staticProvider cfg l w c req os = Inr out \<and> \<not> handled out) \<longleftrightarrow>
      (req_method req \<noteq> ''GET'' \<and> req_method req \<noteq> ''HEAD'') \<or>
      (indexOf (pathname l req) ''..'' = - 1 \<and>
       \<not> (cache cfg \<and> \<not> conditionalGET req \<and> c (cacheKey os req) \<noteq> None) \<and>
       (resolve l w (roots cfg) (pathname l req) = Inr None \<or>
        (\<exists>f st. resolve l w (roots cfg) (pathname l req) = Inr (Some (f, st)) \<and>
                 st_isDirectory st)))) \<and>
   (\<forall>out. staticProvider cfg l w c req os = Inr out \<longrightarrow>
      (if handled out
       then \<exists>r. written out = Some r \<and> (status r = 200 \<or> status r = 304 \<or> status r = 403)
       else written out = None \<and> store out = c))"
  by (auto simp add: staticProvider_def declined_def modified_built forbidden_def Let_def
      split: option.splits sum.splits if_splits)

text \<open>The theorem at \<^verbatim>\<open>GET /missing.txt\<close>, a file under no root: declined, nothing written.\<close>
theorem declines_exactly_witness:
  "req_method (get_request ''/missing.txt'') = ''GET'' \<and>
   indexOf (pathname posix_lib (get_request ''/missing.txt'')) ''..'' = - 1 \<and>
   resolve posix_lib demo_world (roots demo_config) (pathname posix_lib (get_request ''/missing.txt''))
     = Inr None \<and>
   staticProvider demo_config posix_lib demo_world Map.empty (get_request ''/missing.txt'') None =
     Inr \<lparr>handled = False, written = None, store = Map.empty\<rparr>"
proof -
  let ?req = "get_request ''/missing.txt''"
  have p: "pathname posix_lib ?req = ''/missing.txt''"
    by (simp add: get_request_def pathname_def posix_lib_def drop_query_def)
  have r: "resolve posix_lib demo_world (roots demo_config) ''/missing.txt'' = Inr None"
    by (simp add: demo_config_def demo_world_def demo_files_def candidate_def posix_lib_def)
  have i: "indexOf ''/missing.txt'' ''..'' = - 1" by simp
  from declines_exactly [of demo_config posix_lib demo_world Map.empty ?req None]
  obtain out where o: "staticProvider demo_config posix_lib demo_world Map.empty ?req None = Inr out"
    and h: "\<not> handled out" and "written out = None \<and> store out = Map.empty"
    unfolding p using r i by auto
  then have "out = \<lparr>handled = False, written = None, store = Map.empty\<rparr>" by simp
  with o p r i show ?thesis by (simp add: get_request_def)
qed

text \<open>
  Claim C6 as stated has the handler return false whenever no root yields an existing
  file. With an entry cached for \<^verbatim>\<open>/gone.txt\<close> and the file now under neither root,
  the handler answers 200 from the cache and returns true.
\<close>
theorem declines_stale_hit_counterexample:
  "fs_stat demo_world (candidate posix_lib ''/www'' (pathname posix_lib (get_request ''/gone.txt'')))
     = Inl (JsError ''ENOENT'') \<and>
   fs_stat demo_world (candidate posix_lib ''/alt'' (pathname posix_lib (get_request ''/gone.txt'')))
     = Inl (JsError ''ENOENT'') \<and>
   roots demo_config = [''/www'', ''/alt''] \<and>
   staticProvider demo_config posix_lib demo_world
      [''/gone.txt'' \<mapsto> \<lparr>ce_headers = [(''content-length'', ''3'')], ce_body = ''old''\<rparr>]
      (get_request ''/gone.txt'') None =
     Inr \<lparr>handled = True,
          written = Some \<lparr>status = 200, res_headers = [(''content-length'', ''3'')],
                          res_body = Some ''old''\<rparr>,
          store = [''/gone.txt'' \<mapsto> \<lparr>ce_headers = [(''content-length'', ''3'')], ce_body = ''old''\<rparr>]\<rparr>"
  by (simp add: staticProvider_def get_request_def pathname_def posix_lib_def drop_query_def
      demo_config_def demo_world_def demo_files_def candidate_def conditionalGET_def truthy_def
      cacheKey_def prefixed_def)

subsection \<open>The cache\<close>

text \<open>The definitions to unfold when the handler is run on the concrete installation.\<close>

lemmas demo_simps = staticProvider_def get_request_def pathname_def posix_lib_def drop_query_def
  demo_config_def demo_world_def demo_files_def candidate_def conditionalGET_def truthy_def
  cacheKey_def prefixed_def response_headers_def modified_def transformed_def endsWith_def
  etag_def num_str_def dec.simps digit_def declined_def forbidden_def
  demo_store_def demo_entry_def nocache_opts_def Let_def

text \<open>
  Claim C7, as amended. For a GET or HEAD request that passes the traversal check: when
  caching is on, neither \<^verbatim>\<open>if-modified-since\<close> nor \<^verbatim>\<open>if-none-match\<close> has a non-empty
  value, and the cache holds an entry for the cache key, the handler answers 200 with the
  stored headers and the stored body (no body for HEAD), leaves the cache as it is, and
  does so whatever the file system holds. When one of the two headers has a non-empty
  value, what the handler returns and writes does not depend on the cache, and a 200 it
  writes carries headers computed from the stats and the content of the file found by
  the search of the roots.
\<close>
theorem cache_hit_short_circuit:
  "((req_method req = ''GET'' \<or> req_method req = ''HEAD'') \<and>
    indexOf (pathname l req) ''..'' = - 1 \<and>
    cache cfg \<and> \<not> conditionalGET req \<and> c (cacheKey os req) = Some hit \<longrightarrow>
      (\<forall>w'. staticProvider cfg l w' c req os =
         Inr \<lparr>handled = True,
              written = Some \<lparr>status = 200, res_headers = ce_headers hit,
                              res_body = (if req_method req = ''HEAD'' then None
                                          else Some (ce_body hit))\<rparr>,
              store = c\<rparr>)) \<and>
   (conditionalGET req \<longrightarrow>
      (\<forall>c'. map_sum id (\<lambda>out. (handled out, written out)) (staticProvider cfg l w c req os) =
            map_sum id (\<lambda>out. (handled out, written out)) (staticProvider cfg l w c' req os)) \<and>
      (\<forall>out r. staticProvider cfg l w c req os = Inr out \<and> written out = Some r \<and> status r = 200 \<longrightarrow>
         (\<exists>f st raw data. resolve l w (roots cfg) (pathname l req) = Inr (Some (f, st)) \<and>
            fs_readFile w f = Inr raw \<and> transformed os raw = Inr data \<and>
            res_headers r = response_headers cfg l w os f st data)))"
proof (intro conjI impI allI)
  fix w'
  assume "(req_method req = ''GET'' \<or> req_method req = ''HEAD'') \<and>
    indexOf (pathname l req) ''..'' = - 1 \<and>
    cache cfg \<and> \<not> conditionalGET req \<and> c (cacheKey os req) = Some hit"
  then show "staticProvider cfg l w' c req os =
         Inr \<lparr>handled = True,
              written = Some \<lparr>status = 200, res_headers = ce_headers hit,
                              res_body = (if req_method req = ''HEAD'' then None
                                          else Some (ce_body hit))\<rparr>,
              store = c\<rparr>"
    by (auto simp add: staticProvider_def)
next
  fix c'
  assume "conditionalGET req"
  then show "map_sum id (\<lambda>out. (handled out, written out)) (staticProvider cfg l w c req os) =
            map_sum id (\<lambda>out. (handled out, written out)) (staticProvider cfg l w c' req os)"
    by (auto simp add: staticProvider_def declined_def modified_built Let_def
        split: option.splits sum.splits)
next
  fix out r
  assume "conditionalGET req"
    and "staticProvider cfg l w c req os = Inr out \<and> written out = Some r \<and> status r = 200"
  then show "\<exists>f st raw data. resolve l w (roots cfg) (pathname l req) = Inr (Some (f, st)) \<and>
            fs_readFile w f = Inr raw \<and> transformed os raw = Inr data \<and>
            res_headers r = response_headers cfg l w os f st data"
    by (auto simp add: staticProvider_def declined_def modified_built forbidden_def Let_def
        split: option.splits sum.splits if_splits)
qed


text \<open>
  The theorem at \<^verbatim>\<open>GET /a.txt\<close> with an entry cached: the cached body is served, also
  when every \<^verbatim>\<open>stat\<close> fails; with \<^verbatim>\<open>if-none-match\<close> set, the file's content is.
\<close>
theorem cache_hit_short_circuit_witness:
  "cache demo_config \<and> \<not> conditionalGET (get_request ''/a.txt'') \<and>
   demo_store (cacheKey None (get_request ''/a.txt'')) = Some demo_entry \<and>
   staticProvider demo_config posix_lib demo_world demo_store (get_request ''/a.txt'') None =
     Inr \<lparr>handled = True,
          written = Some \<lparr>status = 200, res_headers = ce_headers demo_entry,
                          res_body = Some ''cached''\<rparr>,
          store = demo_store\<rparr> \<and>
   staticProvider demo_config posix_lib (demo_world\<lparr>fs_stat := \<lambda>f. Inl (JsError ''EIO'')\<rparr>)
       demo_store (get_request ''/a.txt'') None =
     staticProvider demo_config posix_lib demo_world demo_store (get_request ''/a.txt'') None \<and>
   conditionalGET \<lparr>req_method = ''GET'', url = ''/a.txt'', req_headers = [(''if-none-match'', ''x'')]\<rparr> \<and>
   map_sum id (\<lambda>out. map_option res_body (written out))
     (staticProvider demo_config posix_lib demo_world demo_store
        \<lparr>req_method = ''GET'', url = ''/a.txt'', req_headers = [(''if-none-match'', ''x'')]\<rparr> None) =
     Inr (Some (Some ''hi''))"
proof -
  let ?req = "get_request ''/a.txt''"
  have a: "req_method ?req = ''GET''" by (simp add: get_request_def)
  have b: "indexOf (pathname posix_lib ?req) ''..'' = - 1"
    by (simp add: get_request_def pathname_def posix_lib_def drop_query_def)
  have d: "cache demo_config" by (simp add: demo_config_def)
  have e: "\<not> conditionalGET ?req" by (simp add: conditionalGET_def get_request_def truthy_def)
  have f: "demo_store (cacheKey None ?req) = Some demo_entry"
    by (simp add: demo_store_def cacheKey_def prefixed_def get_request_def drop_query_def)
  have g: "ce_body demo_entry = ''cached''" by (simp add: demo_entry_def)
  from cache_hit_short_circuit [of ?req posix_lib demo_config demo_store None demo_entry]
  have "\<forall>w'. staticProvider demo_config posix_lib w' demo_store ?req None =
         Inr \<lparr>handled = True,
              written = Some \<lparr>status = 200, res_headers = ce_headers demo_entry,
                              res_body = Some ''cached''\<rparr>,
              store = demo_store\<rparr>"
    using a b d e f g by simp
  moreover have "conditionalGET
      \<lparr>req_method = ''GET'', url = ''/a.txt'', req_headers = [(''if-none-match'', ''x'')]\<rparr>"
    by (simp add: conditionalGET_def truthy_def)
  moreover have "map_sum id (\<lambda>out. map_option res_body (written out))
     (staticProvider demo_config posix_lib demo_world demo_store
        \<lparr>req_method = ''GET'', url = ''/a.txt'', req_headers = [(''if-none-match'', ''x'')]\<rparr> None) =
     Inr (Some (Some ''hi''))"
    by (simp add: demo_simps)
  ultimately show ?thesis using d e f by simp
qed

text \<open>
  Claim C7 as stated has no condition on the method. A POST for \<^verbatim>\<open>/a.txt\<close> with an
  entry cached and no conditional header is declined, with no response written.
\<close>
theorem cache_hit_post_counterexample:
  "cache demo_config \<and>
   \<not> conditionalGET \<lparr>req_method = ''POST'', url = ''/a.txt'', req_headers = []\<rparr> \<and>
   demo_store (cacheKey None \<lparr>req_method = ''POST'', url = ''/a.txt'', req_headers = []\<rparr>)
     = Some demo_entry \<and>
   staticProvider demo_config posix_lib demo_world demo_store
      \<lparr>req_method = ''POST'', url = ''/a.txt'', req_headers = []\<rparr> None =
     Inr \<lparr>handled = False, written = None, store = demo_store\<rparr>"
  by (simp add: staticProvider_def declined_def demo_config_def conditionalGET_def truthy_def
      demo_store_def cacheKey_def prefixed_def drop_query_def)

text \<open>The handler writes the cache at the cache key only, and reads it there only.\<close>
lemma store_frame:
  assumes "staticProvider cfg l w c req os = Inr out" and "k \<noteq> cacheKey os req"
  shows "store out k = c k"
  using assms
  by (auto simp add: staticProvider_def declined_def Let_def
      split: option.splits sum.splits if_splits)

lemma lookup_local_response:
  assumes "c' (cacheKey os req) = c (cacheKey os req)"
  shows "map_sum id (\<lambda>out. (handled out, written out)) (staticProvider cfg l w c' req os) =
         map_sum id (\<lambda>out. (handled out, written out)) (staticProvider cfg l w c req os)"
  using assms
  by (auto simp add: staticProvider_def declined_def Let_def
      split: option.splits sum.splits)

lemma write_back:
  assumes "staticProvider cfg l w c req os = Inr out \<and> written out = Some r \<and>
      status r = 200 \<and> cache cfg \<and>
      \<not> (\<not> conditionalGET req \<and> c (cacheKey os req) \<noteq> None)"
  shows "\<exists>d. store out (cacheKey os req) = Some \<lparr>ce_headers = res_headers r, ce_body = d\<rparr> \<and>
           res_body r = (if req_method req = ''HEAD'' then None else Some d)"
  using assms
  by (auto simp add: staticProvider_def declined_def modified_built forbidden_def Let_def
      split: option.splits sum.splits if_splits)

lemma lookup_local:
  assumes "c' (cacheKey os req) = c (cacheKey os req)"
  shows "map_sum id (\<lambda>out. (handled out, written out, store out (cacheKey os req)))
           (staticProvider cfg l w c' req os) =
         map_sum id (\<lambda>out. (handled out, written out, store out (cacheKey os req)))
           (staticProvider cfg l w c req os)"
  using assms
  by (auto simp add: staticProvider_def declined_def Let_def
      split: option.splits sum.splits)

text \<open>
  The cache key where it is as intended. Without an options object the key is the request
  URL up to its first \<^verbatim>\<open>?\<close>; with an options object that has a \<^verbatim>\<open>cachePrefix\<close> it
  is that prefix followed by the same. The key is the one place of the cache the handler
  uses: every other entry is the same after the request, what the handler returns, writes
  and stores at the key depends on the cache through the entry at the key only, and with
  caching on a 200 built from a file is stored at the key, headers and body.
\<close>
theorem cache_key:
  "cacheKey None req = takeWhile (\<lambda>ch. ch \<noteq> CHR ''?'') (url req) \<and>
   (cachePrefix o' = Some p \<longrightarrow>
      cacheKey (Some o') req = p @ takeWhile (\<lambda>ch. ch \<noteq> CHR ''?'') (url req)) \<and>
   (\<forall>out k. staticProvider cfg l w c req os = Inr out \<and> k \<noteq> cacheKey os req \<longrightarrow>
      store out k = c k) \<and>
   (\<forall>c'. c' (cacheKey os req) = c (cacheKey os req) \<longrightarrow>
      map_sum id (\<lambda>out. (handled out, written out, store out (cacheKey os req)))
        (staticProvider cfg l w c' req os) =
      map_sum id (\<lambda>out. (handled out, written out, store out (cacheKey os req)))
        (staticProvider cfg l w c req os)) \<and>
   (\<forall>out r. staticProvider cfg l w c req os = Inr out \<and> written out = Some r \<and>
      status r = 200 \<and> cache cfg \<and>
      \<not> (\<not> conditionalGET req \<and> c (cacheKey os req) \<noteq> None) \<longrightarrow>
      (\<exists>d. store out (cacheKey os req) = Some \<lparr>ce_headers = res_headers r, ce_body = d\<rparr> \<and>
           res_body r = (if req_method req = ''HEAD'' then None else Some d)))"
proof (intro conjI impI allI)
  show "cacheKey None req = takeWhile (\<lambda>ch. ch \<noteq> CHR ''?'') (url req)"
    by (simp add: cacheKey_def prefixed_def drop_query_takeWhile)
next
  assume "cachePrefix o' = Some p"
  then show "cacheKey (Some o') req = p @ takeWhile (\<lambda>ch. ch \<noteq> CHR ''?'') (url req)"
    by (simp add: cacheKey_def prefixed_def drop_query_takeWhile)
next
  fix out k
  assume "staticProvider cfg l w c req os = Inr out \<and> k \<noteq> cacheKey os req"
  then show "store out k = c k" using store_frame by blast
next
  fix c'
  assume "c' (cacheKey os req) = c (cacheKey os req)"
  then show "map_sum id (\<lambda>out. (handled out, written out, store out (cacheKey os req)))
        (staticProvider cfg l w c' req os) =
      map_sum id (\<lambda>out. (handled out, written out, store out (cacheKey os req)))
        (staticProvider cfg l w c req os)"
    by (rule lookup_local)
next
  fix out r
  assume "staticProvider cfg l w c req os = Inr out \<and> written out = Some r \<and>
      status r = 200 \<and> cache cfg \<and>
      \<not> (\<not> conditionalGET req \<and> c (cacheKey os req) \<noteq> None)"
  then show "\<exists>d. store out (cacheKey os req) = Some \<lparr>ce_headers = res_headers r, ce_body = d\<rparr> \<and>
           res_body r = (if req_method req = ''HEAD'' then None else Some d)"
    by (rule write_back)
qed

text \<open>The theorem at \<^verbatim>\<open>GET /a.txt?v=1\<close>, without options and with the prefix \<^verbatim>\<open>site1:\<close>.\<close>
theorem cache_key_witness:
  "cachePrefix \<lparr>cachePrefix = Some ''site1:'', transform = None, nocache = False\<rparr> = Some ''site1:'' \<and>
   cacheKey (Some \<lparr>cachePrefix = Some ''site1:'', transform = None, nocache = False\<rparr>)
     (get_request ''/a.txt?v=1'') = ''site1:/a.txt'' \<and>
   cacheKey None (get_request ''/a.txt?v=1'') = ''/a.txt'' \<and>
   map_sum id (\<lambda>out. store out ''/b.txt'')
     (staticProvider demo_config posix_lib demo_world Map.empty (get_request ''/a.txt?v=1'') None) =
     Inr None \<and>
   map_sum id (\<lambda>out. map_option ce_body (store out ''/a.txt''))
     (staticProvider demo_config posix_lib demo_world Map.empty (get_request ''/a.txt?v=1'') None) =
     Inr (Some ''hi'') \<and>
   map_sum id (\<lambda>out. (handled out, written out, store out ''/a.txt''))
     (staticProvider demo_config posix_lib demo_world [''/b.txt'' \<mapsto> demo_entry]
        (get_request ''/a.txt?v=1'') None) =
   map_sum id (\<lambda>out. (handled out, written out, store out ''/a.txt''))
     (staticProvider demo_config posix_lib demo_world Map.empty (get_request ''/a.txt?v=1'') None)"
proof -
  let ?o = "\<lparr>cachePrefix = Some ''site1:'', transform = None, nocache = False\<rparr>"
  let ?req = "get_request ''/a.txt?v=1''"
  have u: "takeWhile (\<lambda>ch. ch \<noteq> CHR ''?'') (url ?req) = ''/a.txt''"
    by (simp add: get_request_def)
  note k = cache_key [of ?req ?o "''site1:''" demo_config posix_lib demo_world Map.empty None]
  have k1: "cacheKey None ?req = ''/a.txt''" using k u by simp
  have k2: "cacheKey (Some ?o) ?req = ''site1:/a.txt''" using k u by simp
  have run: "map_sum id (\<lambda>out. map_option ce_body (store out ''/a.txt''))
      (staticProvider demo_config posix_lib demo_world Map.empty ?req None) = Inr (Some ''hi'')"
    by (simp add: demo_simps)
  then obtain out where o: "staticProvider demo_config posix_lib demo_world Map.empty ?req None = Inr out"
    by (cases "staticProvider demo_config posix_lib demo_world Map.empty ?req None") auto
  have "''/b.txt'' \<noteq> cacheKey None ?req" using k1 by simp
  with k o have "store out ''/b.txt'' = Map.empty ''/b.txt''" by blast
  with o have "map_sum id (\<lambda>out. store out ''/b.txt'')
     (staticProvider demo_config posix_lib demo_world Map.empty ?req None) = Inr None" by simp
  moreover have "map_sum id (\<lambda>out. (handled out, written out, store out ''/a.txt''))
     (staticProvider demo_config posix_lib demo_world [''/b.txt'' \<mapsto> demo_entry] ?req None) =
   map_sum id (\<lambda>out. (handled out, written out, store out ''/a.txt''))
     (staticProvider demo_config posix_lib demo_world Map.empty ?req None)"
  proof -
    have "[''/b.txt'' \<mapsto> demo_entry] (cacheKey None ?req) = Map.empty (cacheKey None ?req)"
      using k1 by simp
    with k show ?thesis unfolding k1 by blast
  qed
  ultimately show ?thesis using k1 k2 run by simp
qed

text \<open>
  Claim C4 on the code. With an options object that only sets \<^verbatim>\<open>nocache\<close>, the
  claim's key for \<^verbatim>\<open>GET /a.txt?v=1\<close> is \<^verbatim>\<open>/a.txt\<close>. The handler tests \<^verbatim>\<open>opts\<close>
  where it means \<^verbatim>\<open>opts.cachePrefix\<close>, concatenates the missing prefix, and stores
  the response under \<^verbatim>\<open>undefined/a.txt\<close>; nothing is stored under \<^verbatim>\<open>/a.txt\<close>.
\<close>
theorem cache_key_without_prefix:
  "cachePrefix nocache_opts = None \<and>
   cacheKey (Some nocache_opts) (get_request ''/a.txt?v=1'') = ''undefined/a.txt'' \<and>
   map_sum id (\<lambda>out. (map_option ce_body (store out ''/a.txt''),
                       map_option ce_body (store out ''undefined/a.txt'')))
     (staticProvider demo_config posix_lib demo_world Map.empty (get_request ''/a.txt?v=1'')
        (Some nocache_opts)) =
     Inr (None, Some ''hi'')"
  by (simp add: demo_simps)

text \<open>
  \<^verbatim>\<open>clearCache\<close> where it is as intended. With a non-empty key it removes the entry at
  the key when no options object is given, and the entry at \<^verbatim>\<open>cachePrefix\<close> followed by
  the key when the options object has a \<^verbatim>\<open>cachePrefix\<close>; every other entry stays.
  Without a key the cache is emptied. After \<^verbatim>\<open>clearCache\<close> for the URL of a request
  (up to its first \<^verbatim>\<open>?\<close>) with the options of that request, the cache has no entry at
  the request's cache key, and the handler returns and writes what it does on an empty
  cache.
\<close>
theorem clearCache_frame:
  "(k \<noteq> [] \<longrightarrow> clearCache (Some k) None c = c(k := None)) \<and>
   (k \<noteq> [] \<and> cachePrefix o' = Some p \<longrightarrow> clearCache (Some k) (Some o') c = c(p @ k := None)) \<and>
   clearCache None os c = Map.empty \<and>
   (drop_query (url req) = k \<longrightarrow>
      clearCache (Some k) os c (cacheKey os req) = None \<and>
      map_sum id (\<lambda>out. (handled out, written out))
        (staticProvider cfg l w (clearCache (Some k) os c) req os) =
      map_sum id (\<lambda>out. (handled out, written out))
        (staticProvider cfg l w Map.empty req os))"
proof (intro conjI impI)
  assume "k \<noteq> []"
  then show "clearCache (Some k) None c = c(k := None)"
    by (simp add: clearCache_def truthy_def prefixed_def)
next
  assume "k \<noteq> [] \<and> cachePrefix o' = Some p"
  then show "clearCache (Some k) (Some o') c = c(p @ k := None)"
    by (simp add: clearCache_def truthy_def prefixed_def)
next
  show "clearCache None os c = Map.empty"
    by (simp add: clearCache_def truthy_def)
next
  assume "drop_query (url req) = k"
  then show "clearCache (Some k) os c (cacheKey os req) = None"
    by (simp add: clearCache_def cacheKey_def)
next
  assume "drop_query (url req) = k"
  then have "clearCache (Some k) os c (cacheKey os req) = Map.empty (cacheKey os req)"
    by (simp add: clearCache_def cacheKey_def)
  then show "map_sum id (\<lambda>out. (handled out, written out))
        (staticProvider cfg l w (clearCache (Some k) os c) req os) =
      map_sum id (\<lambda>out. (handled out, written out))
        (staticProvider cfg l w Map.empty req os)"
    by (rule lookup_local_response)
qed

text \<open>The theorem at the key \<^verbatim>\<open>/a.txt\<close>: the file's content is served after the clear.\<close>
theorem clearCache_frame_witness:
  "clearCache (Some ''/a.txt'') None (demo_store(''/b.txt'' \<mapsto> demo_entry)) = [''/b.txt'' \<mapsto> demo_entry] \<and>
   clearCache (Some ''/a.txt'') (Some \<lparr>cachePrefix = Some ''site1:'', transform = None, nocache = False\<rparr>)
     [''site1:/a.txt'' \<mapsto> demo_entry, ''/a.txt'' \<mapsto> demo_entry] = [''/a.txt'' \<mapsto> demo_entry] \<and>
   drop_query (url (get_request ''/a.txt'')) = ''/a.txt'' \<and>
   map_sum id (\<lambda>out. map_option res_body (written out))
     (staticProvider demo_config posix_lib demo_world (clearCache (Some ''/a.txt'') None demo_store)
        (get_request ''/a.txt'') None) = Inr (Some (Some ''hi''))"
proof -
  let ?o = "\<lparr>cachePrefix = Some ''site1:'', transform = None, nocache = False\<rparr>"
  have d: "drop_query (url (get_request ''/a.txt'')) = ''/a.txt''"
    by (simp add: get_request_def drop_query_def)
  have "clearCache (Some ''/a.txt'') None (demo_store(''/b.txt'' \<mapsto> demo_entry)) =
      (demo_store(''/b.txt'' \<mapsto> demo_entry))(''/a.txt'' := None)"
    using clearCache_frame [where k = "''/a.txt''" and c = "demo_store(''/b.txt'' \<mapsto> demo_entry)"]
    by simp
  then have a: "clearCache (Some ''/a.txt'') None (demo_store(''/b.txt'' \<mapsto> demo_entry)) =
      [''/b.txt'' \<mapsto> demo_entry]"
    by (simp add: demo_store_def fun_eq_iff)
  have "clearCache (Some ''/a.txt'') (Some ?o) [''site1:/a.txt'' \<mapsto> demo_entry, ''/a.txt'' \<mapsto> demo_entry] =
      [''site1:/a.txt'' \<mapsto> demo_entry, ''/a.txt'' \<mapsto> demo_entry](''site1:'' @ ''/a.txt'' := None)"
    using clearCache_frame [where k = "''/a.txt''" and o' = ?o and p = "''site1:''"] by simp
  then have b: "clearCache (Some ''/a.txt'') (Some ?o)
      [''site1:/a.txt'' \<mapsto> demo_entry, ''/a.txt'' \<mapsto> demo_entry] = [''/a.txt'' \<mapsto> demo_entry]"
    by (simp add: fun_eq_iff)
  have "clearCache (Some ''/a.txt'') None demo_store = Map.empty"
    by (simp add: clearCache_def truthy_def prefixed_def demo_store_def)
  then have e: "map_sum id (\<lambda>out. map_option res_body (written out))
     (staticProvider demo_config posix_lib demo_world (clearCache (Some ''/a.txt'') None demo_store)
        (get_request ''/a.txt'') None) = Inr (Some (Some ''hi''))"
    by (simp add: demo_simps)
  from a b d e show ?thesis by simp
qed

text \<open>
  Claim C9 on the code. \<^verbatim>\<open>clearCache\<close> tests \<^verbatim>\<open>opts\<close> where it means
  \<^verbatim>\<open>opts.cachePrefix\<close>, as the handler does. Called for \<^verbatim>\<open>/a.txt\<close> with an options
  object that only sets \<^verbatim>\<open>nocache\<close>, it leaves the entry at \<^verbatim>\<open>/a.txt\<close>, and the next
  \<^verbatim>\<open>GET /a.txt\<close> is answered with the cached body and not the file's. In the other
  direction, what a request with such options cached lies under \<^verbatim>\<open>undefined/a.txt\<close>,
  \<^verbatim>\<open>clearCache\<close> for \<^verbatim>\<open>/a.txt\<close> without options leaves it, and the next such request
  is answered with the cached body.
\<close>
theorem clearCache_leaves_stale_entry:
  "cachePrefix nocache_opts = None \<and>
   clearCache (Some ''/a.txt'') (Some nocache_opts) demo_store ''/a.txt'' = Some demo_entry \<and>
   fs_readFile demo_world ''/www/a.txt'' = Inr ''hi'' \<and>
   map_sum id (\<lambda>out. map_option res_body (written out))
     (staticProvider demo_config posix_lib demo_world
        (clearCache (Some ''/a.txt'') (Some nocache_opts) demo_store)
        (get_request ''/a.txt'') None) = Inr (Some (Some ''cached'')) \<and>
   clearCache (Some ''/a.txt'') None [''undefined/a.txt'' \<mapsto> demo_entry] ''undefined/a.txt'' =
     Some demo_entry \<and>
   map_sum id (\<lambda>out. map_option res_body (written out))
     (staticProvider demo_config posix_lib demo_world
        (clearCache (Some ''/a.txt'') None [''undefined/a.txt'' \<mapsto> demo_entry])
        (get_request ''/a.txt'') (Some nocache_opts)) = Inr (Some (Some ''cached''))"
  by (simp add: demo_simps clearCache_def)

subsection \<open>Responses built from a file\<close>

text \<open>
  A 200 that does not come from the cache is built from the file the search of the roots
  ends at, which is not a directory, from its stats and its (transformed) content.
\<close>

lemma built_etag:
  "map_of (response_headers cfg l w os f st d) ''etag'' =
     Some ([CHR 0x22] @ dec (st_size st) @ ''-'' @ num_str (st_mtime st) @ [CHR 0x22])"
  by (simp add: response_headers_def etag_def Let_def)

lemma built_cache_control:
  "map_of (response_headers cfg l w os f st d) ''cache-control'' =
     Some (if (\<exists>o'. os = Some o' \<and> nocache o')
           then ''no-cache, no-store, must-revalidate''
           else ''public, max-age='' @ quotient_text l (maxAge cfg) 1000)"
  by (cases os) (simp_all add: response_headers_def Let_def)

lemma ok_from_files:
  assumes "staticProvider cfg l w c req os = Inr out"
    and "written out = Some r"
    and "status r = 200"
    and "\<not> (cache cfg \<and> \<not> conditionalGET req \<and> c (cacheKey os req) \<noteq> None)"
  shows "\<exists>f st raw d. resolve l w (roots cfg) (pathname l req) = Inr (Some (f, st)) \<and>
           \<not> st_isDirectory st \<and> fs_readFile w f = Inr raw \<and> transformed os raw = Inr d \<and>
           r = \<lparr>status = 200, res_headers = response_headers cfg l w os f st d,
                res_body = (if req_method req = ''HEAD'' then None else Some d)\<rparr>"
  using assms
  by (auto simp add: staticProvider_def declined_def modified_built forbidden_def Let_def
        split: option.splits sum.splits if_splits)

text \<open>
  Claim C8. Whenever the handler writes a 200 that does not come from the cache, the
  search of the roots ended at a file with stats \<^verbatim>\<open>st\<close>, the \<^verbatim>\<open>etag\<close> header is the
  size and the modification time of \<^verbatim>\<open>st\<close> in decimal, joined by a hyphen and put
  between double quotes, and the \<^verbatim>\<open>cache-control\<close> header is
  \<^verbatim>\<open>no-cache, no-store, must-revalidate\<close> when the options set \<^verbatim>\<open>nocache\<close> and
  \<^verbatim>\<open>public, max-age=\<close> followed by the text of \<^verbatim>\<open>maxAge / 1000\<close> otherwise.
\<close>
theorem etag_and_cache_control:
  assumes "staticProvider cfg l w c req os = Inr out"
    and "written out = Some r"
    and "status r = 200"
    and "\<not> (cache cfg \<and> \<not> conditionalGET req \<and> c (cacheKey os req) \<noteq> None)"
  shows "\<exists>f st. resolve l w (roots cfg) (pathname l req) = Inr (Some (f, st)) \<and>
           map_of (res_headers r) ''etag'' =
             Some ([CHR 0x22] @ dec (st_size st) @ ''-'' @ num_str (st_mtime st) @ [CHR 0x22]) \<and>
           map_of (res_headers r) ''cache-control'' =
             Some (if (\<exists>o'. os = Some o' \<and> nocache o')
                   then ''no-cache, no-store, must-revalidate''
                   else ''public, max-age='' @ quotient_text l (maxAge cfg) 1000)"
proof -
  from ok_from_files [OF assms] obtain f st raw d where
    res: "resolve l w (roots cfg) (pathname l req) = Inr (Some (f, st))"
    and r: "r = \<lparr>status = 200, res_headers = response_headers cfg l w os f st d,
                res_body = (if req_method req = ''HEAD'' then None else Some d)\<rparr>"
    by blast
  have "map_of (res_headers r) ''etag'' =
          Some ([CHR 0x22] @ dec (st_size st) @ ''-'' @ num_str (st_mtime st) @ [CHR 0x22])"
    unfolding r by (simp only: response.simps built_etag)
  moreover have "map_of (res_headers r) ''cache-control'' =
             Some (if (\<exists>o'. os = Some o' \<and> nocache o')
                   then ''no-cache, no-store, must-revalidate''
                   else ''public, max-age='' @ quotient_text l (maxAge cfg) 1000)"
    unfolding r by (simp only: response.simps built_cache_control)
  ultimately show ?thesis using res by blast
qed

text \<open>
  The theorem at \<^verbatim>\<open>GET /a.txt\<close> (size 2, modified at 1000, the default \<^verbatim>\<open>maxAge\<close>),
  and the same request with \<^verbatim>\<open>nocache\<close> set and with a \<^verbatim>\<open>maxAge\<close> of ten minutes.
\<close>
theorem etag_and_cache_control_witness:
  "(\<exists>out r. staticProvider demo_config posix_lib demo_world Map.empty (get_request ''/a.txt'') None
        = Inr out \<and>
      written out = Some r \<and> status r = 200 \<and>
      map_of (res_headers r) ''etag'' = Some ([CHR 0x22] @ ''2-1000'' @ [CHR 0x22]) \<and>
      map_of (res_headers r) ''cache-control'' = Some ''public, max-age=31557600'') \<and>
   map_sum id (\<lambda>out. map_option (\<lambda>r. (status r, map_of (res_headers r) ''cache-control''))
                       (written out))
     (staticProvider demo_config posix_lib demo_world Map.empty (get_request ''/a.txt'')
        (Some nocache_opts)) =
     Inr (Some (200, Some ''no-cache, no-store, must-revalidate'')) \<and>
   map_sum id (\<lambda>out. map_option (\<lambda>r. (status r, map_of (res_headers r) ''cache-control''))
                       (written out))
     (staticProvider (demo_config\<lparr>maxAge := 600000\<rparr>) posix_lib demo_world Map.empty
        (get_request ''/a.txt'') None) =
     Inr (Some (200, Some ''public, max-age=600''))"
proof -
  let ?req = "get_request ''/a.txt''"
  have "\<exists>out r. staticProvider demo_config posix_lib demo_world Map.empty ?req None = Inr out \<and>
      written out = Some r \<and> status r = 200"
    by (simp add: demo_simps)
  then obtain out r
    where o: "staticProvider demo_config posix_lib demo_world Map.empty ?req None = Inr out"
      and wr: "written out = Some r" and s: "status r = 200"
    by blast
  have nohit: "\<not> (cache demo_config \<and> \<not> conditionalGET ?req \<and>
      Map.empty (cacheKey None ?req) \<noteq> (None :: cache_entry option))"
    by simp
  from etag_and_cache_control [OF o wr s nohit] obtain f st
    where res: "resolve posix_lib demo_world (roots demo_config) (pathname posix_lib ?req)
        = Inr (Some (f, st))"
      and e: "map_of (res_headers r) ''etag'' =
        Some ([CHR 0x22] @ dec (st_size st) @ ''-'' @ num_str (st_mtime st) @ [CHR 0x22])"
      and cc: "map_of (res_headers r) ''cache-control'' =
        Some (if (\<exists>o'. (None :: opts option) = Some o' \<and> nocache o')
              then ''no-cache, no-store, must-revalidate''
              else ''public, max-age='' @ quotient_text posix_lib (maxAge demo_config) 1000)"
    by blast
  have "resolve posix_lib demo_world (roots demo_config) (pathname posix_lib ?req)
      = Inr (Some (''/www/a.txt'', \<lparr>st_size = 2, st_mtime = 1000, st_isDirectory = False\<rparr>))"
    by (simp add: demo_simps)
  with res have st: "st = \<lparr>st_size = 2, st_mtime = 1000, st_isDirectory = False\<rparr>" by simp
  have e': "map_of (res_headers r) ''etag'' = Some ([CHR 0x22] @ ''2-1000'' @ [CHR 0x22])"
    using e unfolding st by (simp add: num_str_def dec.simps digit_def)
  have cc': "map_of (res_headers r) ''cache-control'' = Some ''public, max-age=31557600''"
    using cc by (simp add: demo_config_def posix_lib_def dec.simps digit_def)
  have "map_sum id (\<lambda>out. map_option (\<lambda>r. (status r, map_of (res_headers r) ''cache-control''))
                       (written out))
     (staticProvider demo_config posix_lib demo_world Map.empty ?req (Some nocache_opts)) =
     Inr (Some (200, Some ''no-cache, no-store, must-revalidate''))"
    by (simp add: demo_simps)
  moreover have "map_sum id (\<lambda>out. map_option (\<lambda>r. (status r, map_of (res_headers r) ''cache-control''))
                       (written out))
     (staticProvider (demo_config\<lparr>maxAge := 600000\<rparr>) posix_lib demo_world Map.empty
        ?req None) =
     Inr (Some (200, Some ''public, max-age=600''))"
    by (simp add: demo_simps)
  ultimately show ?thesis using o wr s e' cc' by blast
qed

subsection \<open>The search of the roots\<close>

lemma first_hit_Nil: "\<not> first_hit l w [] p r"
  by (simp add: first_hit_def)

lemma first_hit_Cons:
  "first_hit l w (a # rs) p r \<longleftrightarrow>
     r = a \<or> (not_found w (candidate l a p) \<and> first_hit l w rs p r)"
  by (auto simp add: first_hit_def)

lemma resolve_found:
  "resolve l w rs p = Inr (Some (f, st)) \<longleftrightarrow>
     (\<exists>r. first_hit l w rs p r \<and> f = candidate l r p \<and> fs_stat w f = Inr st)"
proof (induction rs)
  case Nil
  then show ?case by (simp add: first_hit_Nil)
next
  case (Cons a rs)
  show ?case
  proof (cases "fs_stat w (candidate l a p)")
    case (Inr st')
    then show ?thesis by (auto simp add: first_hit_Cons not_found_def)
  next
    case (Inl err)
    then show ?thesis using Cons.IH by (auto simp add: first_hit_Cons not_found_def)
  qed
qed

lemma resolve_error:
  "resolve l w rs p = Inl err \<longleftrightarrow>
     (\<exists>r. first_hit l w rs p r \<and> fs_stat w (candidate l r p) = Inl err \<and> code err \<noteq> ''ENOENT'')"
proof (induction rs)
  case Nil
  then show ?case by (simp add: first_hit_Nil)
next
  case (Cons a rs)
  show ?case
  proof (cases "fs_stat w (candidate l a p)")
    case (Inr st')
    then show ?thesis by (auto simp add: first_hit_Cons not_found_def)
  next
    case (Inl e)
    then show ?thesis using Cons.IH by (auto simp add: first_hit_Cons not_found_def)
  qed
qed

lemma resolve_none:
  "resolve l w rs p = Inr None \<longleftrightarrow> (\<forall>r\<in>set rs. not_found w (candidate l r p))"
proof (induction rs)
  case Nil
  then show ?case by simp
next
  case (Cons a rs)
  then show ?case by (cases "fs_stat w (candidate l a p)") (auto simp add: not_found_def)
qed


text \<open>
  Claim C3, as amended. The search ends with the candidate file and the stats of a root
  exactly when that root is in the array, the \<^verbatim>\<open>stat\<close> of the candidate of every root before it
  throws \<^verbatim>\<open>ENOENT\<close>, and its own \<^verbatim>\<open>stat\<close> returns; it throws an error exactly when the
  first \<^verbatim>\<open>stat\<close> that does not throw \<^verbatim>\<open>ENOENT\<close> throws that error; it ends with
  nothing exactly when every \<^verbatim>\<open>stat\<close> throws \<^verbatim>\<open>ENOENT\<close>. The candidate of a root is
  the root joined with the decoded path, followed by \<^verbatim>\<open>index.html\<close> when the joined path
  ends in the separator. For a GET or HEAD request that passes the traversal check and
  is not answered from the cache, an error of the search is the handler's error, and a
  file the search ends at that is not a directory is the one read and served.
\<close>
theorem roots_in_order:
  "(resolve l w rs p = Inr (Some (f, st)) \<longleftrightarrow>
      (\<exists>r. first_hit l w rs p r \<and> f = candidate l r p \<and> fs_stat w f = Inr st)) \<and>
   (resolve l w rs p = Inl err \<longleftrightarrow>
      (\<exists>r. first_hit l w rs p r \<and> fs_stat w (candidate l r p) = Inl err \<and>
           code err \<noteq> ''ENOENT'')) \<and>
   (resolve l w rs p = Inr None \<longleftrightarrow> (\<forall>r\<in>set rs. not_found w (candidate l r p))) \<and>
   candidate l dir p =
     path_join l dir p @
       (if path_join l dir p \<noteq> [] \<and> last (path_join l dir p) = path_sep l
        then ''index.html'' else []) \<and>
   ((req_method req = ''GET'' \<or> req_method req = ''HEAD'') \<and>
    indexOf (pathname l req) ''..'' = - 1 \<and>
    \<not> (cache cfg \<and> \<not> conditionalGET req \<and> c (cacheKey os req) \<noteq> None) \<longrightarrow>
      (\<forall>e. resolve l w (roots cfg) (pathname l req) = Inl e \<longrightarrow>
           staticProvider cfg l w c req os = Inl e) \<and>
      (\<forall>fn s raw d. resolve l w (roots cfg) (pathname l req) = Inr (Some (fn, s)) \<and>
           \<not> st_isDirectory s \<and> fs_readFile w fn = Inr raw \<and> transformed os raw = Inr d \<longrightarrow>
           (\<exists>out. staticProvider cfg l w c req os = Inr out \<and> handled out \<and>
              written out =
                Some \<lparr>status = 200, res_headers = response_headers cfg l w os fn s d,
                      res_body = (if req_method req = ''HEAD'' then None else Some d)\<rparr>)))"
proof (intro conjI impI allI)
  show "resolve l w rs p = Inr (Some (f, st)) \<longleftrightarrow>
      (\<exists>r. first_hit l w rs p r \<and> f = candidate l r p \<and> fs_stat w f = Inr st)"
    by (rule resolve_found)
next
  show "resolve l w rs p = Inl err \<longleftrightarrow>
      (\<exists>r. first_hit l w rs p r \<and> fs_stat w (candidate l r p) = Inl err \<and>
           code err \<noteq> ''ENOENT'')"
    by (rule resolve_error)
next
  show "resolve l w rs p = Inr None \<longleftrightarrow> (\<forall>r\<in>set rs. not_found w (candidate l r p))"
    by (rule resolve_none)
next
  show "candidate l dir p =
     path_join l dir p @
       (if path_join l dir p \<noteq> [] \<and> last (path_join l dir p) = path_sep l
        then ''index.html'' else [])"
    by (simp add: candidate_def)
next
  fix e
  assume "(req_method req = ''GET'' \<or> req_method req = ''HEAD'') \<and>
    indexOf (pathname l req) ''..'' = - 1 \<and>
    \<not> (cache cfg \<and> \<not> conditionalGET req \<and> c (cacheKey os req) \<noteq> None)"
    and "resolve l w (roots cfg) (pathname l req) = Inl e"
  then show "staticProvider cfg l w c req os = Inl e"
    by (auto simp add: staticProvider_def)
next
  fix fn s raw d
  assume "(req_method req = ''GET'' \<or> req_method req = ''HEAD'') \<and>
    indexOf (pathname l req) ''..'' = - 1 \<and>
    \<not> (cache cfg \<and> \<not> conditionalGET req \<and> c (cacheKey os req) \<noteq> None)"
    and "resolve l w (roots cfg) (pathname l req) = Inr (Some (fn, s)) \<and>
           \<not> st_isDirectory s \<and> fs_readFile w fn = Inr raw \<and> transformed os raw = Inr d"
  then show "\<exists>out. staticProvider cfg l w c req os = Inr out \<and> handled out \<and>
              written out =
                Some \<lparr>status = 200, res_headers = response_headers cfg l w os fn s d,
                      res_body = (if req_method req = ''HEAD'' then None else Some d)\<rparr>"
    by (auto simp add: staticProvider_def modified_built Let_def)
qed


text \<open>
  The theorem on the concrete installation: \<^verbatim>\<open>/a.txt\<close> is under both roots and the
  first one in the array wins, in either order; \<^verbatim>\<open>/b.txt\<close> is found under the second
  root after \<^verbatim>\<open>ENOENT\<close> under the first; \<^verbatim>\<open>/docs/\<close> gets \<^verbatim>\<open>index.html\<close>; an
  \<^verbatim>\<open>EACCES\<close> from \<^verbatim>\<open>stat\<close> reaches the caller; and \<^verbatim>\<open>/b%2Etxt\<close> is looked up
  decoded.
\<close>
theorem roots_in_order_witness:
  "fs_stat demo_world (candidate posix_lib ''/www'' ''/a.txt'') =
     Inr \<lparr>st_size = 2, st_mtime = 1000, st_isDirectory = False\<rparr> \<and>
   fs_stat demo_world (candidate posix_lib ''/alt'' ''/a.txt'') =
     Inr \<lparr>st_size = 3, st_mtime = 6000, st_isDirectory = False\<rparr> \<and>
   resolve posix_lib demo_world [''/www'', ''/alt''] ''/a.txt'' =
     Inr (Some (''/www/a.txt'', \<lparr>st_size = 2, st_mtime = 1000, st_isDirectory = False\<rparr>)) \<and>
   resolve posix_lib demo_world [''/alt'', ''/www''] ''/a.txt'' =
     Inr (Some (''/alt/a.txt'', \<lparr>st_size = 3, st_mtime = 6000, st_isDirectory = False\<rparr>)) \<and>
   resolve posix_lib demo_world [''/www'', ''/alt''] ''/b.txt'' =
     Inr (Some (''/alt/b.txt'', \<lparr>st_size = 1, st_mtime = 7000, st_isDirectory = False\<rparr>)) \<and>
   candidate posix_lib ''/www'' ''/docs/'' = ''/www/docs/index.html'' \<and>
   map_sum id (\<lambda>out. map_option res_body (written out))
     (staticProvider demo_config posix_lib demo_world Map.empty (get_request ''/a.txt'') None) =
     Inr (Some (Some ''hi'')) \<and>
   staticProvider demo_config posix_lib demo_world Map.empty (get_request ''/locked/x'') None =
     Inl (JsError ''EACCES'') \<and>
   pathname decoding_lib (get_request ''/b%2Etxt'') = ''/b.txt'' \<and>
   map_sum id (\<lambda>out. map_option res_body (written out))
     (staticProvider demo_config decoding_lib demo_world Map.empty (get_request ''/b%2Etxt'') None) =
     Inr (Some (Some ''b''))"
proof -
  note t = roots_in_order [of posix_lib demo_world, THEN conjunct1]
  have sa: "fs_stat demo_world (candidate posix_lib ''/www'' ''/a.txt'') =
     Inr \<lparr>st_size = 2, st_mtime = 1000, st_isDirectory = False\<rparr>"
    and sb: "fs_stat demo_world (candidate posix_lib ''/alt'' ''/a.txt'') =
     Inr \<lparr>st_size = 3, st_mtime = 6000, st_isDirectory = False\<rparr>"
    and sc: "fs_stat demo_world (candidate posix_lib ''/alt'' ''/b.txt'') =
     Inr \<lparr>st_size = 1, st_mtime = 7000, st_isDirectory = False\<rparr>"
    and nb: "not_found demo_world (candidate posix_lib ''/www'' ''/b.txt'')"
    by (simp_all add: demo_world_def demo_files_def candidate_def posix_lib_def not_found_def)
  have ca: "candidate posix_lib ''/www'' ''/a.txt'' = ''/www/a.txt''"
    and cb: "candidate posix_lib ''/alt'' ''/a.txt'' = ''/alt/a.txt''"
    and cc: "candidate posix_lib ''/alt'' ''/b.txt'' = ''/alt/b.txt''"
    and cd: "candidate posix_lib ''/www'' ''/docs/'' = ''/www/docs/index.html''"
    by (simp_all add: candidate_def posix_lib_def)
  have h1: "first_hit posix_lib demo_world [''/www'', ''/alt''] ''/a.txt'' ''/www''"
    and h2: "first_hit posix_lib demo_world [''/alt'', ''/www''] ''/a.txt'' ''/alt''"
    by (simp_all add: first_hit_def)
  have h3: "first_hit posix_lib demo_world [''/www'', ''/alt''] ''/b.txt'' ''/alt''"
    using nb by (simp add: first_hit_def)
  have r1: "resolve posix_lib demo_world [''/www'', ''/alt''] ''/a.txt'' =
     Inr (Some (''/www/a.txt'', \<lparr>st_size = 2, st_mtime = 1000, st_isDirectory = False\<rparr>))"
  proof -
    have "\<exists>r. first_hit posix_lib demo_world [''/www'', ''/alt''] ''/a.txt'' r \<and>
        ''/www/a.txt'' = candidate posix_lib r ''/a.txt'' \<and>
        fs_stat demo_world ''/www/a.txt'' =
          Inr \<lparr>st_size = 2, st_mtime = 1000, st_isDirectory = False\<rparr>"
      using h1 sa ca by (intro exI [of _ "''/www''"]) simp
    then show ?thesis by (simp only: t)
  qed
  have r2: "resolve posix_lib demo_world [''/alt'', ''/www''] ''/a.txt'' =
     Inr (Some (''/alt/a.txt'', \<lparr>st_size = 3, st_mtime = 6000, st_isDirectory = False\<rparr>))"
  proof -
    have "\<exists>r. first_hit posix_lib demo_world [''/alt'', ''/www''] ''/a.txt'' r \<and>
        ''/alt/a.txt'' = candidate posix_lib r ''/a.txt'' \<and>
        fs_stat demo_world ''/alt/a.txt'' =
          Inr \<lparr>st_size = 3, st_mtime = 6000, st_isDirectory = False\<rparr>"
      using h2 sb cb by (intro exI [of _ "''/alt''"]) simp
    then show ?thesis by (simp only: t)
  qed
  have r3: "resolve posix_lib demo_world [''/www'', ''/alt''] ''/b.txt'' =
     Inr (Some (''/alt/b.txt'', \<lparr>st_size = 1, st_mtime = 7000, st_isDirectory = False\<rparr>))"
  proof -
    have "\<exists>r. first_hit posix_lib demo_world [''/www'', ''/alt''] ''/b.txt'' r \<and>
        ''/alt/b.txt'' = candidate posix_lib r ''/b.txt'' \<and>
        fs_stat demo_world ''/alt/b.txt'' =
          Inr \<lparr>st_size = 1, st_mtime = 7000, st_isDirectory = False\<rparr>"
      using h3 sc cc by (intro exI [of _ "''/alt''"]) simp
    then show ?thesis by (simp only: t)
  qed
  have served: "map_sum id (\<lambda>out. map_option res_body (written out))
     (staticProvider demo_config posix_lib demo_world Map.empty (get_request ''/a.txt'') None) =
     Inr (Some (Some ''hi''))"
    by (simp add: demo_simps)
  have thrown: "staticProvider demo_config posix_lib demo_world Map.empty
      (get_request ''/locked/x'') None = Inl (JsError ''EACCES'')"
    by (simp add: demo_simps)
  have decoded: "pathname decoding_lib (get_request ''/b%2Etxt'') = ''/b.txt'' \<and>
     map_sum id (\<lambda>out. map_option res_body (written out))
       (staticProvider demo_config decoding_lib demo_world Map.empty (get_request ''/b%2Etxt'') None) =
       Inr (Some (Some ''b''))"
    by (simp add: demo_simps decoding_lib_def escape_table_def)
  from sa sb r1 r2 r3 cd served thrown decoded show ?thesis by simp
qed

text \<open>
  Claim C3 as stated has the file of the earlier root served whenever the path exists
  under two roots. The cache is looked up before the roots: with an entry cached for
  \<^verbatim>\<open>/a.txt\<close> that holds the content of \<^verbatim>\<open>/alt/a.txt\<close>, \<^verbatim>\<open>GET /a.txt\<close> is
  answered with that content although \<^verbatim>\<open>/www/a.txt\<close> exists and \<^verbatim>\<open>/www\<close> is the
  earlier root.
\<close>
theorem roots_in_order_cached_counterexample:
  "roots demo_config = [''/www'', ''/alt''] \<and>
   fs_stat demo_world (candidate posix_lib ''/www'' (pathname posix_lib (get_request ''/a.txt''))) =
     Inr \<lparr>st_size = 2, st_mtime = 1000, st_isDirectory = False\<rparr> \<and>
   fs_stat demo_world (candidate posix_lib ''/alt'' (pathname posix_lib (get_request ''/a.txt''))) =
     Inr \<lparr>st_size = 3, st_mtime = 6000, st_isDirectory = False\<rparr> \<and>
   fs_readFile demo_world ''/www/a.txt'' = Inr ''hi'' \<and>
   fs_readFile demo_world ''/alt/a.txt'' = Inr ''alt'' \<and>
   staticProvider demo_config posix_lib demo_world
      [''/a.txt'' \<mapsto> \<lparr>ce_headers = [(''content-length'', ''3'')], ce_body = ''alt''\<rparr>]
      (get_request ''/a.txt'') None =
     Inr \<lparr>handled = True,
          written = Some \<lparr>status = 200, res_headers = [(''content-length'', ''3'')],
                          res_body = Some ''alt''\<rparr>,
          store = [''/a.txt'' \<mapsto> \<lparr>ce_headers = [(''content-length'', ''3'')], ce_body = ''alt''\<rparr>]\<rparr>"
  by (simp add: staticProvider_def get_request_def pathname_def posix_lib_def drop_query_def
      demo_config_def demo_world_def demo_files_def candidate_def conditionalGET_def truthy_def
      cacheKey_def prefixed_def)

subsection \<open>Conditional requests and the download header\<close>

text \<open>
  Claim C1 on the code. The first \<^verbatim>\<open>GET /a.txt\<close> is answered 200 with the \<^verbatim>\<open>etag\<close>
  header \<^verbatim>\<open>"2-1000"\<close>. The same request with \<^verbatim>\<open>if-none-match\<close> set to that value is
  answered 200 again, with every header and the body, where the claim has a 304 without
  body: \<^verbatim>\<open>modified\<close> looks the computed headers up under \<^verbatim>\<open>ETag\<close> and
  \<^verbatim>\<open>Last-Modified\<close>, and the handler stores them under \<^verbatim>\<open>etag\<close> and \<^verbatim>\<open>last-modified\<close>.
\<close>
theorem revalidation_answered_200:
  "map_sum id (\<lambda>out. map_option (\<lambda>r. (status r, map_of (res_headers r) ''etag'')) (written out))
     (staticProvider (demo_config\<lparr>cache := False\<rparr>) posix_lib demo_world Map.empty
        (get_request ''/a.txt'') None) =
     Inr (Some (200, Some ([CHR 0x22] @ ''2-1000'' @ [CHR 0x22]))) \<and>
   staticProvider (demo_config\<lparr>cache := False\<rparr>) posix_lib demo_world Map.empty
      \<lparr>req_method = ''GET'', url = ''/a.txt'',
       req_headers = [(''if-none-match'', [CHR 0x22] @ ''2-1000'' @ [CHR 0x22])]\<rparr> None =
     Inr \<lparr>handled = True,
          written = Some \<lparr>status = 200,
                          res_headers =
                            [(''content-type'', ''text/plain''),
                             (''content-length'', ''2''),
                             (''last-modified'', ''t=1000''),
                             (''cache-control'', ''public, max-age=31557600''),
                             (''etag'', [CHR 0x22] @ ''2-1000'' @ [CHR 0x22]),
                             (''expires'', ''t=9000'')],
                          res_body = Some ''hi''\<rparr>,
          store = Map.empty\<rparr>"
  by (simp add: demo_simps)

text \<open>
  Claim C5 on the code. For \<^verbatim>\<open>/name.exe\<close> the \<^verbatim>\<open>content-disposition\<close> header is
  \<^verbatim>\<open>attachment; filename="name.exe\<close>: the quote opened before the name is not closed.
  For \<^verbatim>\<open>/Setup.Exe\<close> there is no such header: only the spellings \<^verbatim>\<open>.exe\<close> and
  \<^verbatim>\<open>.EXE\<close> are tested.
\<close>
theorem exe_disposition_unclosed:
  "map_sum id (\<lambda>out. map_option (\<lambda>r. (status r, map_of (res_headers r) ''content-disposition''))
                       (written out))
     (staticProvider demo_config posix_lib demo_world Map.empty (get_request ''/name.exe'') None) =
     Inr (Some (200, Some (''attachment; filename='' @ [CHR 0x22] @ ''name.exe''))) \<and>
   map_sum id (\<lambda>out. map_option (\<lambda>r. (status r, map_of (res_headers r) ''content-disposition''))
                       (written out))
     (staticProvider demo_config posix_lib demo_world Map.empty (get_request ''/Setup.Exe'') None) =
     Inr (Some (200, None))"
  by (simp add: demo_simps)

text \<open>The handler never writes a 304, whatever the request, the files and the cache.\<close>
theorem never_not_modified:
  "\<not> (\<exists>out r. staticProvider cfg l w c req os = Inr out \<and> written out = Some r \<and> status r = 304)"
  using status_built [of cfg l w c req os] by fastforce

text \<open>
  The \<^verbatim>\<open>content-disposition\<close> header is present exactly when the file name ends in
  \<^verbatim>\<open>.EXE\<close> or \<^verbatim>\<open>.exe\<close>, and is then \<^verbatim>\<open>attachment; filename="\<close> followed by the part
  of the file name after its last separator.
\<close>
theorem disposition_header:
  "map_of (response_headers cfg l w os f st d) ''content-disposition'' =
     (if endsWith f ''.EXE'' \<or> endsWith f ''.exe''
      then Some (''attachment; filename='' @ [CHR 0x22] @ last (split_str (path_sep l) f))
      else None)"
  by (simp add: response_headers_def Let_def)

text \<open>
  \<^verbatim>\<open>notModified\<close> removes the headers whose name starts with \<^verbatim>\<open>Content\<close>; of the
  headers the handler builds, whose names are in lower case, it removes none.
\<close>
theorem not_modified_strips_nothing:
  "res_headers (notModified (response_headers cfg l w os f st d)) = response_headers cfg l w os f st d"
  by (simp add: notModified_def response_headers_def Let_def)

end
